theory Spec2Isabelle
  imports Complex_Main "HOL-Library.Monad_Syntax"
begin

section \<open>Colour transformations: data model\<close>

text \<open>
  The conversions of \<^verbatim>\<open>colour/computation/transformations.py\<close> and the DCDM codec of
  \<^verbatim>\<open>colour/models/rgb/transfer_functions/dcdm.py\<close> work on 3x1 matrices of doubles, which
  each function flattens with \<^verbatim>\<open>numpy.ravel\<close> into three numpy scalars. A 3x1 matrix is
  a triple of reals here and a 3x3 matrix a triple of rows. Finite doubles are idealised as
  reals: rounding and overflow are not part of the model.

  numpy scalars do not raise on a division by zero or on a fractional power of a negative
  number: the result is \<^verbatim>\<open>inf\<close> or \<^verbatim>\<open>nan\<close> (with a warning). Neither is a real number, so
  the model writes these operations as partial (\<open>fdiv\<close>, \<open>fpow\<close>) and a conversion whose
  result would hold such a component yields \<open>None\<close>. In every function below an
  \<^verbatim>\<open>inf\<close> or \<^verbatim>\<open>nan\<close> intermediate reaches some component of the returned matrix, so
  \<open>None\<close> means exactly: the returned matrix is not a matrix of finite numbers.
\<close>

type_synonym vec3 = "real \<times> real \<times> real"

type_synonym mat33 = "vec3 \<times> vec3 \<times> vec3"

type_synonym chromaticity = "real \<times> real"

definition fdiv :: "real \<Rightarrow> real \<Rightarrow> real option" where
  \<comment> \<open>\<^verbatim>\<open>a / b\<close> on numpy doubles: not finite when \<^verbatim>\<open>b == 0\<close>.\<close>
  "fdiv a b = (if b = 0 then None else Some (a / b))"

definition fpow :: "real \<Rightarrow> real \<Rightarrow> real option" where
  \<comment> \<open>\<^verbatim>\<open>a ** e\<close> on numpy doubles for the exponents the sources use with it
      (\<^verbatim>\<open>1 / 2.6\<close> and \<^verbatim>\<open>2.6\<close>: positive and not integers): \<^verbatim>\<open>nan\<close> for a negative base.\<close>
  "fpow a e = (if a < 0 then None else Some (a powr e))"

section \<open>Chromaticity conversions\<close>

definition XYZ_to_xyY :: "vec3 \<Rightarrow> chromaticity \<Rightarrow> vec3 option" where
  "XYZ_to_xyY XYZ illuminant =
     (case XYZ of (X, Y, Z) \<Rightarrow>
        if X = 0 \<and> Y = 0 \<and> Z = 0 then Some (fst illuminant, snd illuminant, Y)
        else do {
          x \<leftarrow> fdiv X (X + Y + Z);
          y \<leftarrow> fdiv Y (X + Y + Z);
          Some (x, y, Y)
        })"

definition xyY_to_XYZ :: "vec3 \<Rightarrow> vec3" where
  \<comment> \<open>The only divisor is \<^verbatim>\<open>y\<close>, and the guard excludes \<^verbatim>\<open>y == 0\<close>.\<close>
  "xyY_to_XYZ xyY =
     (case xyY of (x, y, Y) \<Rightarrow>
        if y = 0 then (0, 0, 0)
        else (x * Y / y, Y, (1 - x - y) * Y / y))"

definition xy_to_XYZ :: "chromaticity \<Rightarrow> vec3" where
  "xy_to_XYZ xy = xyY_to_XYZ (fst xy, snd xy, 1)"

section \<open>RGB and CIE XYZ\<close>

text \<open>
  \<^verbatim>\<open>colour.computation.chromatic_adaptation.get_chromatic_adaptation_matrix\<close> is not among
  the sources: the conversions take it as their first argument. It receives the two
  illuminants as \<^verbatim>\<open>CIE XYZ\<close> matrices and the method name and returns a 3x3 matrix, or
  raises (\<open>None\<close>), for instance on a method it does not know. An optional transfer function
  is an \<open>option\<close>, \<^verbatim>\<open>None\<close> being Python's.
\<close>

type_synonym adaptation_engine = "vec3 \<Rightarrow> vec3 \<Rightarrow> string \<Rightarrow> mat33 option"

definition dot :: "vec3 \<Rightarrow> vec3 \<Rightarrow> real" where
  "dot r v = (case r of (a, b, c) \<Rightarrow> case v of (x, y, z) \<Rightarrow> a * x + b * y + c * z)"

definition mat_vec :: "mat33 \<Rightarrow> vec3 \<Rightarrow> vec3" where
  \<comment> \<open>\<^verbatim>\<open>M * v\<close> for a 3x3 and a 3x1 \<^verbatim>\<open>numpy.matrix\<close>.\<close>
  "mat_vec M v = (case M of (r1, r2, r3) \<Rightarrow> (dot r1 v, dot r2 v, dot r3 v))"

definition mat_col :: "mat33 \<Rightarrow> nat \<Rightarrow> vec3" where
  "mat_col M j =
     (case M of ((a11, a12, a13), (a21, a22, a23), (a31, a32, a33)) \<Rightarrow>
        if j = 0 then (a11, a21, a31) else if j = 1 then (a12, a22, a32) else (a13, a23, a33))"

definition mat_mul :: "mat33 \<Rightarrow> mat33 \<Rightarrow> mat33" where
  \<comment> \<open>\<^verbatim>\<open>A * B\<close> for two 3x3 matrices.\<close>
  "mat_mul A B =
     (case A of (r1, r2, r3) \<Rightarrow>
        ((dot r1 (mat_col B 0), dot r1 (mat_col B 1), dot r1 (mat_col B 2)),
         (dot r2 (mat_col B 0), dot r2 (mat_col B 1), dot r2 (mat_col B 2)),
         (dot r3 (mat_col B 0), dot r3 (mat_col B 1), dot r3 (mat_col B 2))))"

definition mat_id :: mat33 where
  "mat_id = ((1, 0, 0), (0, 1, 0), (0, 0, 1))"

definition map_vec :: "(real \<Rightarrow> real) \<Rightarrow> vec3 \<Rightarrow> vec3" where
  \<comment> \<open>\<^verbatim>\<open>numpy.matrix(map(lambda x: f(x), numpy.ravel(v))).reshape((3, 1))\<close>\<close>
  "map_vec f v = (case v of (a, b, c) \<Rightarrow> (f a, f b, f c))"

definition XYZ_to_RGB ::
  "adaptation_engine \<Rightarrow> vec3 \<Rightarrow> chromaticity \<Rightarrow> chromaticity \<Rightarrow> string \<Rightarrow> mat33
     \<Rightarrow> (real \<Rightarrow> real) option \<Rightarrow> vec3 option" where
  "XYZ_to_RGB get_chromatic_adaptation_matrix XYZ illuminant_XYZ illuminant_RGB
       chromatic_adaptation_method from_XYZ transfer_function =
     do {
       cat \<leftarrow> get_chromatic_adaptation_matrix (xy_to_XYZ illuminant_XYZ)
                (xy_to_XYZ illuminant_RGB) chromatic_adaptation_method;
       let adaptedXYZ = mat_vec cat XYZ;
       let RGB = mat_vec from_XYZ adaptedXYZ;
       Some (case transfer_function of None \<Rightarrow> RGB | Some f \<Rightarrow> map_vec f RGB)
     }"

definition RGB_to_XYZ ::
  "adaptation_engine \<Rightarrow> vec3 \<Rightarrow> chromaticity \<Rightarrow> chromaticity \<Rightarrow> string \<Rightarrow> mat33
     \<Rightarrow> (real \<Rightarrow> real) option \<Rightarrow> vec3 option" where
  "RGB_to_XYZ get_chromatic_adaptation_matrix RGB illuminant_RGB illuminant_XYZ
       chromatic_adaptation_method to_XYZ inverse_transfer_function =
     (let RGB' = (case inverse_transfer_function of None \<Rightarrow> RGB | Some f \<Rightarrow> map_vec f RGB);
          XYZ = mat_vec to_XYZ RGB'
      in do {
        cat \<leftarrow> get_chromatic_adaptation_matrix (xy_to_XYZ illuminant_RGB)
                 (xy_to_XYZ illuminant_XYZ) chromatic_adaptation_method;
        Some (mat_vec cat XYZ)
      })"

definition inverse_transfer_of ::
  "(real \<Rightarrow> real) option \<Rightarrow> (real \<Rightarrow> real) option \<Rightarrow> bool" where
  \<comment> \<open>The decoder \<open>g\<close> undoes the encoder \<open>f\<close>; both are absent together.\<close>
  "inverse_transfer_of g f =
     (case (f, g) of
        (None, None) \<Rightarrow> True
      | (Some f', Some g') \<Rightarrow> (\<forall>x. g' (f' x) = x)
      | _ \<Rightarrow> False)"

section \<open>CIE UCS\<close>



section \<open>CIE Luv and CIE Lab\<close>

definition CIE_E :: real where
  \<comment> \<open>Modelled from the spec: \<^verbatim>\<open>colour.computation.lightness.CIE_E\<close>, whose module is not
      among the sources; the spec gives the threshold as the cube of 6/29.\<close>
  "CIE_E = (6 / 29) ^ 3"

definition CIE_K :: real where
  \<comment> \<open>Modelled from the spec: \<^verbatim>\<open>colour.computation.lightness.CIE_K\<close>, whose module is not
      among the sources; the spec gives the slope as 24389/27.\<close>
  "CIE_K = 24389 / 27"

definition XYZ_to_Luv :: "vec3 \<Rightarrow> chromaticity \<Rightarrow> vec3 option" where
  \<comment> \<open>\<^verbatim>\<open>yr ** (1. / 3.)\<close> is evaluated only where \<^verbatim>\<open>yr > CIE_E\<close>, a positive base.\<close>
  "XYZ_to_Luv XYZ illuminant =
     (case XYZ of (X, Y, Z) \<Rightarrow>
      case xy_to_XYZ illuminant of (Xr, Yr, Zr) \<Rightarrow>
        do {
          yr \<leftarrow> fdiv Y Yr;
          let L = (if yr > CIE_E then 116 * yr powr (1 / 3) - 16 else CIE_K * yr);
          u' \<leftarrow> fdiv (4 * X) (X + 15 * Y + 3 * Z);
          ur' \<leftarrow> fdiv (4 * Xr) (Xr + 15 * Yr + 3 * Zr);
          v' \<leftarrow> fdiv (9 * Y) (X + 15 * Y + 3 * Z);
          vr' \<leftarrow> fdiv (9 * Yr) (Xr + 15 * Yr + 3 * Zr);
          Some (L, 13 * L * (u' - ur'), 13 * L * (v' - vr'))
        })"

definition Luv_to_XYZ :: "vec3 \<Rightarrow> chromaticity \<Rightarrow> vec3 option" where
  "Luv_to_XYZ Luv illuminant =
     (case Luv of (L, u, v) \<Rightarrow>
      case xy_to_XYZ illuminant of (Xr, Yr, Zr) \<Rightarrow>
        do {
          let Y = (if L > CIE_E * CIE_K then ((L + 16) / 116) ^ 3 else L / CIE_K);
          ur' \<leftarrow> fdiv (4 * Xr) (Xr + 15 * Yr + 3 * Zr);
          q \<leftarrow> fdiv (52 * L) (u + 13 * L * ur');
          let a = 1 / 3 * (q - 1);
          let b = - 5 * Y;
          let c = - 1 / 3;
          vr' \<leftarrow> fdiv (9 * Yr) (Xr + 15 * Yr + 3 * Zr);
          r \<leftarrow> fdiv (39 * L) (v + 13 * L * vr');
          let d = Y * (r - 5);
          X \<leftarrow> fdiv (d - b) (a - c);
          let Z = X * a + b;
          Some (X, Y, Z)
        })"

definition XYZ_to_Lab :: "vec3 \<Rightarrow> chromaticity \<Rightarrow> vec3 option" where
  \<comment> \<open>Each \<^verbatim>\<open>** (1. / 3.)\<close> is evaluated only on a base above \<^verbatim>\<open>CIE_E\<close>.\<close>
  "XYZ_to_Lab XYZ illuminant =
     (case XYZ of (X, Y, Z) \<Rightarrow>
      case xy_to_XYZ illuminant of (Xr, Yr, Zr) \<Rightarrow>
        do {
          xr \<leftarrow> fdiv X Xr;
          yr \<leftarrow> fdiv Y Yr;
          zr \<leftarrow> fdiv Z Zr;
          let fx = (if xr > CIE_E then xr powr (1 / 3) else (CIE_K * xr + 16) / 116);
          let fy = (if yr > CIE_E then yr powr (1 / 3) else (CIE_K * yr + 16) / 116);
          let fz = (if zr > CIE_E then zr powr (1 / 3) else (CIE_K * zr + 16) / 116);
          let L = 116 * fy - 16;
          let a = 500 * (fx - fy);
          let b = 200 * (fy - fz);
          Some (L, a, b)
        })"

definition Lab_to_XYZ :: "vec3 \<Rightarrow> chromaticity \<Rightarrow> vec3" where
  \<comment> \<open>Every divisor is a non-zero constant, and \<^verbatim>\<open>** 3.\<close> is defined on every double.\<close>
  "Lab_to_XYZ Lab illuminant =
     (case Lab of (L, a, b) \<Rightarrow>
      case xy_to_XYZ illuminant of (Xr, Yr, Zr) \<Rightarrow>
        let fy = (L + 16) / 116;
            fx = a / 500 + fy;
            fz = fy - b / 200;
            xr = (if fx ^ 3 > CIE_E then fx ^ 3 else (116 * fx - 16) / CIE_K);
            yr = (if L > CIE_K * CIE_E then ((L + 16) / 116) ^ 3 else L / CIE_K);
            zr = (if fz ^ 3 > CIE_E then fz ^ 3 else (116 * fz - 16) / CIE_K);
            X = xr * Xr;
            Y = yr * Yr;
            Z = zr * Zr
        in (X, Y, Z))"

section \<open>Polar forms\<close>







section \<open>DCDM transfer functions\<close>

text \<open>
  The two functions are elementwise on \<^verbatim>\<open>np.asarray\<close> of their argument; the model is
  the function on one element.
\<close>

definition oetf_DCDM :: "real \<Rightarrow> bool \<Rightarrow> real option" where
  "oetf_DCDM XYZ out_int =
     do {
       XYZ_p \<leftarrow> fpow (XYZ / 52.37) (1 / 2.6);
       Some (if out_int then XYZ_p * 4095 else XYZ_p)
     }"

definition eotf_DCDM :: "real \<Rightarrow> bool \<Rightarrow> real option" where
  "eotf_DCDM XYZ_p in_int =
     (let XYZ_p = (if in_int then XYZ_p / 4095 else XYZ_p)
      in do { p \<leftarrow> fpow XYZ_p 2.6; Some (52.37 * p) })"

section \<open>Properties\<close>

subsection \<open>CIE UCS is a linear bijection\<close>


subsection \<open>Chromaticity conversions\<close>

text \<open>
  Claim C1, as stated, at stimuli without luminance. For \<open>(1, 0, 0)\<close> the sum \<open>X + Y + Z\<close>
  is 1, so the claim promises that \<open>(1, 0, 0)\<close> comes back: the guard \<^verbatim>\<open>y == 0\<close> of
  \<open>xyY_to_XYZ\<close> returns the zero matrix instead, further than the tolerance \<open>1e-6\<close> from it.
  For the \<^verbatim>\<open>CIE xyY\<close> matrix \<open>(1/4, 1/4, 0)\<close>, with \<open>y \<noteq> 0\<close>, \<open>xyY_to_XYZ\<close> returns the
  zero matrix, which the guard of \<open>XYZ_to_xyY\<close> sends to the chromaticity of the illuminant.
\<close>

theorem xyY_round_trip_counterexample:
  "(1::real) + 0 + 0 \<noteq> 0
   \<and> map_option xyY_to_XYZ (XYZ_to_xyY (1, 0, 0) (0.34567, 0.3585)) = Some (0, 0, 0)
   \<and> \<bar>(1::real) - 0\<bar> > 1 / 10 ^ 6
   \<and> (1 / 4 :: real) \<noteq> 0
   \<and> XYZ_to_xyY (xyY_to_XYZ (1 / 4, 1 / 4, 0)) (0.34567, 0.3585) = Some (0.34567, 0.3585, 0)
   \<and> \<bar>(0.34567::real) - 1 / 4\<bar> > 1 / 10 ^ 6"
  by (simp add: XYZ_to_xyY_def xyY_to_XYZ_def fdiv_def)

text \<open>
  Claim C1, amended. For every illuminant, \<open>xyY_to_XYZ\<close> after \<open>XYZ_to_xyY\<close> gives back a
  \<^verbatim>\<open>CIE XYZ\<close> matrix with \<open>X + Y + Z \<noteq> 0\<close> whose luminance \<open>Y\<close> is not zero, and
  \<open>XYZ_to_xyY\<close> after \<open>xyY_to_XYZ\<close> gives back a \<^verbatim>\<open>CIE xyY\<close> matrix with \<open>y \<noteq> 0\<close> whose
  luminance \<open>Y\<close> is not zero; both exactly, hence within every tolerance.
\<close>

theorem xyY_round_trip:
  "(X + Y + Z \<noteq> 0 \<and> Y \<noteq> 0 \<longrightarrow>
      map_option xyY_to_XYZ (XYZ_to_xyY (X, Y, Z) illuminant) = Some (X, Y, Z))
   \<and> (y \<noteq> 0 \<and> Y' \<noteq> 0 \<longrightarrow>
      XYZ_to_xyY (xyY_to_XYZ (x, y, Y')) illuminant = Some (x, y, Y'))"
proof (intro conjI impI)
  assume h: "X + Y + Z \<noteq> 0 \<and> Y \<noteq> 0"
  define S where "S = X + Y + Z"
  have S: "S \<noteq> 0" and Y: "Y \<noteq> 0" using h by (simp_all add: S_def)
  have "Z = S - X - Y"
    by (simp add: S_def)
  then have "1 - X / S - Y / S = Z / S"
    using S by (simp add: diff_divide_distrib)
  then have z: "(1 - X / S - Y / S) * Y / (Y / S) = Z"
    using S Y by simp
  have x: "X / S * Y / (Y / S) = X"
    using S Y by simp
  from S Y x z show "map_option xyY_to_XYZ (XYZ_to_xyY (X, Y, Z) illuminant) = Some (X, Y, Z)"
    unfolding S_def by (auto simp add: XYZ_to_xyY_def xyY_to_XYZ_def fdiv_def)
next
  assume h: "y \<noteq> 0 \<and> Y' \<noteq> 0"
  then have s: "x * Y' / y + Y' + (1 - x - y) * Y' / y = Y' / y"
    by (simp add: field_simps)
  with h show "XYZ_to_xyY (xyY_to_XYZ (x, y, Y')) illuminant = Some (x, y, Y')"
    by (simp add: XYZ_to_xyY_def xyY_to_XYZ_def fdiv_def)
qed

theorem xyY_round_trip_witness:
  "map_option xyY_to_XYZ (XYZ_to_xyY (1, 1, 2) (0.34567, 0.3585)) = Some (1, 1, 2)
   \<and> XYZ_to_xyY (xyY_to_XYZ (1 / 4, 1 / 4, 1)) (0.34567, 0.3585) = Some (1 / 4, 1 / 4, 1)"
  using xyY_round_trip [of 1 1 2 "(0.34567, 0.3585)" "1 / 4" 1 "1 / 4"] by simp

text \<open>
  Claim C2. The degenerate inputs have defined results: \<open>XYZ_to_xyY\<close> sends the zero matrix
  to the illuminant's chromaticity with luminance 0, and \<open>xyY_to_XYZ\<close> sends every matrix
  with \<open>y = 0\<close> to the zero matrix. Elsewhere the results are
  \<open>(X / (X + Y + Z), Y / (X + Y + Z), Y)\<close> and \<open>(x Y / y, Y, (1 - x - y) Y / y)\<close>; where
  \<open>X + Y + Z = 0\<close> with a non-zero component, the first of these is a quotient by zero on
  doubles, which is \<open>None\<close> in the model. Both functions are total: there is no input on
  which they raise.
\<close>

theorem degenerate_inputs:
  "XYZ_to_xyY (0, 0, 0) illuminant = Some (fst illuminant, snd illuminant, 0)
   \<and> (X + Y + Z \<noteq> 0 \<longrightarrow>
        XYZ_to_xyY (X, Y, Z) illuminant = Some (X / (X + Y + Z), Y / (X + Y + Z), Y))
   \<and> (X + Y + Z = 0 \<and> \<not> (X = 0 \<and> Y = 0 \<and> Z = 0) \<longrightarrow>
        XYZ_to_xyY (X, Y, Z) illuminant = None)
   \<and> xyY_to_XYZ (x, 0, Y') = (0, 0, 0)
   \<and> (y \<noteq> 0 \<longrightarrow> xyY_to_XYZ (x, y, Y') = (x * Y' / y, Y', (1 - x - y) * Y' / y))"
  by (auto simp add: XYZ_to_xyY_def xyY_to_XYZ_def fdiv_def)

theorem degenerate_inputs_witness:
  "XYZ_to_xyY (0, 0, 0) (0.34567, 0.3585) = Some (0.34567, 0.3585, 0)
   \<and> XYZ_to_xyY (1, 1, 2) (0.34567, 0.3585) = Some (1 / 4, 1 / 4, 1)
   \<and> XYZ_to_xyY (1, - 1, 0) (0.34567, 0.3585) = None
   \<and> xyY_to_XYZ (1 / 4, 0, 1) = (0, 0, 0)
   \<and> xyY_to_XYZ (1 / 4, 1 / 4, 1) = (1, 1, 2)"
  using degenerate_inputs [of "(0.34567, 0.3585)" 1 1 2 "1 / 4" 1 "1 / 4"]
    degenerate_inputs [of "(0.34567, 0.3585)" 1 "- 1" 0 "1 / 4" 1 "1 / 4"]
  by simp

subsection \<open>RGB and CIE XYZ\<close>

lemma mat_vec_mat_mul: "mat_vec (mat_mul A B) v = mat_vec A (mat_vec B v)"
  by (cases A; cases B; cases v)
     (auto simp add: mat_vec_def mat_mul_def mat_col_def dot_def algebra_simps)

lemma mat_vec_mat_id: "mat_vec mat_id v = v"
  by (cases v) (simp add: mat_vec_def mat_id_def dot_def)

lemma mat_vec_inverse:
  assumes "mat_mul A B = mat_id"
  shows "mat_vec A (mat_vec B v) = v"
  using assms mat_vec_mat_mul [of A B v] by (simp add: mat_vec_mat_id)

lemma map_vec_inverse:
  assumes "\<forall>x. g (f x) = x"
  shows "map_vec g (map_vec f v) = v"
  using assms by (cases v) (simp add: map_vec_def)

text \<open>
  Claim C3. Let \<open>to_XYZ\<close> be the matrix inverse of \<open>from_XYZ\<close>, let the inverse transfer
  function undo the transfer function (or both be absent), and let the adaptation engine
  return, for the two illuminants in the two orders, matrices \<open>M\<close> and \<open>M'\<close> that are
  inverse to each other. Then \<open>XYZ_to_RGB\<close> adapts with \<open>M\<close>, applies \<open>from_XYZ\<close> and then
  the transfer function to each component; \<open>RGB_to_XYZ\<close> applies the inverse transfer
  function to each component first, then \<open>to_XYZ\<close>, then \<open>M'\<close>; and \<open>RGB_to_XYZ\<close> after
  \<open>XYZ_to_RGB\<close>, with the illuminants swapped, returns the \<^verbatim>\<open>CIE XYZ\<close> matrix it started
  from.
\<close>

theorem RGB_XYZ_round_trip:
  assumes npm: "mat_mul to_XYZ from_XYZ = mat_id"
    and tf: "inverse_transfer_of inverse_transfer_function transfer_function"
    and fwd: "engine (xy_to_XYZ illuminant_XYZ) (xy_to_XYZ illuminant_RGB) adaptation_method = Some M"
    and bwd: "engine (xy_to_XYZ illuminant_RGB) (xy_to_XYZ illuminant_XYZ) adaptation_method = Some M'"
    and cat: "mat_mul M' M = mat_id"
  shows "XYZ_to_RGB engine V illuminant_XYZ illuminant_RGB adaptation_method from_XYZ transfer_function
           = Some (case transfer_function of
                     None \<Rightarrow> mat_vec from_XYZ (mat_vec M V)
                   | Some f \<Rightarrow> map_vec f (mat_vec from_XYZ (mat_vec M V)))
         \<and> RGB_to_XYZ engine RGB illuminant_RGB illuminant_XYZ adaptation_method to_XYZ
             inverse_transfer_function
           = Some (mat_vec M' (mat_vec to_XYZ
                     (case inverse_transfer_function of
                        None \<Rightarrow> RGB
                      | Some g \<Rightarrow> map_vec g RGB)))
         \<and> (XYZ_to_RGB engine V illuminant_XYZ illuminant_RGB adaptation_method from_XYZ transfer_function
              \<bind> (\<lambda>RGB. RGB_to_XYZ engine RGB illuminant_RGB illuminant_XYZ adaptation_method to_XYZ
                           inverse_transfer_function))
           = Some V"
proof (intro conjI)
  show enc: "XYZ_to_RGB engine V illuminant_XYZ illuminant_RGB adaptation_method from_XYZ transfer_function
           = Some (case transfer_function of
                     None \<Rightarrow> mat_vec from_XYZ (mat_vec M V)
                   | Some f \<Rightarrow> map_vec f (mat_vec from_XYZ (mat_vec M V)))"
    using fwd by (simp add: XYZ_to_RGB_def split: option.split)
  show dec: "RGB_to_XYZ engine RGB illuminant_RGB illuminant_XYZ adaptation_method to_XYZ
             inverse_transfer_function
           = Some (mat_vec M' (mat_vec to_XYZ
                     (case inverse_transfer_function of
                        None \<Rightarrow> RGB
                      | Some g \<Rightarrow> map_vec g RGB)))" for RGB
    using bwd by (simp add: RGB_to_XYZ_def split: option.split)
  have undo: "(case inverse_transfer_function of
                 None \<Rightarrow> (case transfer_function of None \<Rightarrow> W | Some f \<Rightarrow> map_vec f W)
               | Some g \<Rightarrow> map_vec g (case transfer_function of None \<Rightarrow> W | Some f \<Rightarrow> map_vec f W))
              = W" for W
    using tf by (auto simp add: inverse_transfer_of_def map_vec_inverse split: option.splits)
  show "(XYZ_to_RGB engine V illuminant_XYZ illuminant_RGB adaptation_method from_XYZ transfer_function
              \<bind> (\<lambda>RGB. RGB_to_XYZ engine RGB illuminant_RGB illuminant_XYZ adaptation_method to_XYZ
                           inverse_transfer_function))
           = Some V"
    using undo [of "mat_vec from_XYZ (mat_vec M V)"]
    by (simp add: enc dec mat_vec_inverse [OF npm] mat_vec_inverse [OF cat])
qed

theorem RGB_XYZ_round_trip_witness:
  "(XYZ_to_RGB (\<lambda>a b m. Some ((fst b / fst a, 0, 0), (0, fst (snd b) / fst (snd a), 0),
                               (0, 0, snd (snd b) / snd (snd a))))
       (1, 2, 3) (1 / 4, 1 / 4) (1 / 3, 1 / 3) ''XYZ Scaling''
       ((1, 1, 0), (0, 1, 0), (0, 0, 1)) (Some (\<lambda>x. 2 * x))
     \<bind> (\<lambda>RGB. RGB_to_XYZ (\<lambda>a b m. Some ((fst b / fst a, 0, 0), (0, fst (snd b) / fst (snd a), 0),
                               (0, 0, snd (snd b) / snd (snd a))))
                  RGB (1 / 3, 1 / 3) (1 / 4, 1 / 4) ''XYZ Scaling''
                  ((1, - 1, 0), (0, 1, 0), (0, 0, 1)) (Some (\<lambda>x. x / 2))))
   = Some (1, 2, 3)"
proof -
  let ?engine = "\<lambda>(a :: vec3) (b :: vec3) (m :: string).
      Some ((fst b / fst a, 0, 0), (0, fst (snd b) / fst (snd a), 0),
            (0, 0, snd (snd b) / snd (snd a)))"
  have npm: "mat_mul ((1, - 1, 0), (0, 1, 0), (0, 0, 1)) ((1, 1, 0), (0, 1, 0), (0, 0, 1)) = mat_id"
    by (simp add: mat_mul_def mat_col_def dot_def mat_id_def)
  have tf: "inverse_transfer_of (Some (\<lambda>x::real. x / 2)) (Some (\<lambda>x. 2 * x))"
    by (simp add: inverse_transfer_of_def)
  have fwd: "?engine (xy_to_XYZ (1 / 4, 1 / 4)) (xy_to_XYZ (1 / 3, 1 / 3)) ''XYZ Scaling''
      = Some ((1, 0, 0), (0, 1, 0), (0, 0, 1 / 2))"
    by (simp add: xy_to_XYZ_def xyY_to_XYZ_def)
  have bwd: "?engine (xy_to_XYZ (1 / 3, 1 / 3)) (xy_to_XYZ (1 / 4, 1 / 4)) ''XYZ Scaling''
      = Some ((1, 0, 0), (0, 1, 0), (0, 0, 2))"
    by (simp add: xy_to_XYZ_def xyY_to_XYZ_def)
  have cat: "mat_mul ((1, 0, 0), (0, 1, 0), (0, 0, 2)) ((1, 0, 0), (0, 1, 0), (0, 0, 1 / 2)) = mat_id"
    by (simp add: mat_mul_def mat_col_def dot_def mat_id_def)
  note rt = RGB_XYZ_round_trip [where engine = ?engine and V = "(1, 2, 3)"
      and illuminant_XYZ = "(1 / 4, 1 / 4)" and illuminant_RGB = "(1 / 3, 1 / 3)"
      and adaptation_method = "''XYZ Scaling''" and M = "((1, 0, 0), (0, 1, 0), (0, 0, 1 / 2))"
      and M' = "((1, 0, 0), (0, 1, 0), (0, 0, 2))"
      and from_XYZ = "((1, 1, 0), (0, 1, 0), (0, 0, 1))"
      and to_XYZ = "((1, - 1, 0), (0, 1, 0), (0, 0, 1))"
      and transfer_function = "Some (\<lambda>x. 2 * x)"
      and inverse_transfer_function = "Some (\<lambda>x. x / 2)"]
  from rt [OF npm tf fwd bwd cat] show ?thesis by blast
qed

subsection \<open>CIE Luv and CIE Lab: the piecewise rules\<close>

lemma CIE_E_eq: "CIE_E = 216 / 24389"
  by (simp add: CIE_E_def power_divide)

lemma CIE_E_K: "CIE_E * CIE_K = 8" "CIE_K * CIE_E = 8"
  by (simp_all add: CIE_E_eq CIE_K_def)

text \<open>
  Claim C4. The two lightness tests of the Luv pair differ. With \<open>(Xr, Yr, Zr)\<close> the
  reference white, \<open>XYZ_to_Luv\<close> tests \<open>yr = Y / Yr\<close> against \<open>CIE_E = (6/29)^3\<close>: its
  \<open>L\<close> is \<open>116 yr^(1/3) - 16\<close> above the threshold and \<open>CIE_K yr\<close>, with
  \<open>CIE_K = 24389/27\<close>, otherwise. \<open>Luv_to_XYZ\<close> tests \<open>L\<close> against the product
  \<open>CIE_E CIE_K\<close>, which is not \<open>CIE_E\<close>: its \<open>Y\<close> is \<open>((L + 16) / 116)^3\<close> above the
  product and \<open>L / CIE_K\<close> otherwise. Each statement is for the inputs on which no
  divisor of the function is zero, where it returns a matrix of finite numbers.
\<close>

theorem Luv_lightness_branches:
  assumes ill: "xy_to_XYZ illuminant = (Xr, Yr, Zr)"
  shows "CIE_E = (6 / 29) ^ 3 \<and> CIE_K = 24389 / 27 \<and> CIE_E * CIE_K \<noteq> CIE_E
    \<and> (Yr \<noteq> 0 \<and> X + 15 * Y + 3 * Z \<noteq> 0 \<and> Xr + 15 * Yr + 3 * Zr \<noteq> 0 \<longrightarrow>
         map_option fst (XYZ_to_Luv (X, Y, Z) illuminant) =
           Some (if Y / Yr > CIE_E then 116 * (Y / Yr) powr (1 / 3) - 16
                 else CIE_K * (Y / Yr)))
    \<and> (L \<noteq> 0 \<and> Xr + 15 * Yr + 3 * Zr \<noteq> 0
        \<and> u + 13 * L * (4 * Xr / (Xr + 15 * Yr + 3 * Zr)) \<noteq> 0
        \<and> v + 13 * L * (9 * Yr / (Xr + 15 * Yr + 3 * Zr)) \<noteq> 0 \<longrightarrow>
         map_option (fst \<circ> snd) (Luv_to_XYZ (L, u, v) illuminant) =
           Some (if L > CIE_E * CIE_K then ((L + 16) / 116) ^ 3 else L / CIE_K))"
proof (intro conjI impI)
  show "CIE_E = (6 / 29) ^ 3" "CIE_K = 24389 / 27"
    by (simp_all add: CIE_E_def CIE_K_def)
  show "CIE_E * CIE_K \<noteq> CIE_E"
    by (simp add: CIE_E_K) (simp add: CIE_E_eq)
next
  assume "Yr \<noteq> 0 \<and> X + 15 * Y + 3 * Z \<noteq> 0 \<and> Xr + 15 * Yr + 3 * Zr \<noteq> 0"
  then show "map_option fst (XYZ_to_Luv (X, Y, Z) illuminant) =
           Some (if Y / Yr > CIE_E then 116 * (Y / Yr) powr (1 / 3) - 16
                 else CIE_K * (Y / Yr))"
    unfolding XYZ_to_Luv_def ill by (simp add: fdiv_def Let_def)
next
  assume h: "L \<noteq> 0 \<and> Xr + 15 * Yr + 3 * Zr \<noteq> 0
        \<and> u + 13 * L * (4 * Xr / (Xr + 15 * Yr + 3 * Zr)) \<noteq> 0
        \<and> v + 13 * L * (9 * Yr / (Xr + 15 * Yr + 3 * Zr)) \<noteq> 0"
  then show "map_option (fst \<circ> snd) (Luv_to_XYZ (L, u, v) illuminant) =
           Some (if L > CIE_E * CIE_K then ((L + 16) / 116) ^ 3 else L / CIE_K)"
    unfolding Luv_to_XYZ_def ill by (simp add: fdiv_def Let_def)
qed

theorem Luv_lightness_branches_witness:
  "map_option fst (XYZ_to_Luv (1, 1, 1) (1 / 3, 1 / 3)) = Some 100
   \<and> map_option (fst \<circ> snd) (Luv_to_XYZ (1, 1, 1) (1 / 3, 1 / 3)) = Some (27 / 24389)"
  using Luv_lightness_branches [of "(1 / 3, 1 / 3)" 1 1 1 1 1 1 1 1 1]
  by (simp add: xy_to_XYZ_def xyY_to_XYZ_def CIE_E_K CIE_E_eq CIE_K_def)

text \<open>
  Claim C5. \<open>Lab_to_XYZ\<close> recovers \<open>fy = (L + 16) / 116\<close>, \<open>fx = a / 500 + fy\<close> and
  \<open>fz = fy - b / 200\<close>. The X and Z channels test the cube of their own \<open>f\<close> against
  \<open>CIE_E\<close>: the ratio is the cube above it and \<open>(116 f - 16) / CIE_K\<close> otherwise. The Y
  channel alone tests \<open>L\<close> itself, against \<open>CIE_K CIE_E\<close>: its ratio is
  \<open>((L + 16) / 116)^3\<close> above it and \<open>L / CIE_K\<close> otherwise. Each ratio is then scaled by
  the reference white.
\<close>

theorem Lab_to_XYZ_branches:
  assumes ill: "xy_to_XYZ illuminant = (Xr, Yr, Zr)"
    and fy: "fy = (L + 16) / 116"
    and fx: "fx = a / 500 + fy"
    and fz: "fz = fy - b / 200"
  shows "Lab_to_XYZ (L, a, b) illuminant =
      ((if fx ^ 3 > CIE_E then fx ^ 3 else (116 * fx - 16) / CIE_K) * Xr,
       (if L > CIE_K * CIE_E then ((L + 16) / 116) ^ 3 else L / CIE_K) * Yr,
       (if fz ^ 3 > CIE_E then fz ^ 3 else (116 * fz - 16) / CIE_K) * Zr)"
  unfolding Lab_to_XYZ_def ill fy fx fz by (simp add: Let_def)

theorem Lab_to_XYZ_branches_witness:
  "Lab_to_XYZ (100, 0, 200) (1 / 3, 1 / 3) = (1, 1, - 432 / 24389)"
  using Lab_to_XYZ_branches [of "(1 / 3, 1 / 3)" 1 1 1 1 100 1 0 0 200]
  by (simp add: xy_to_XYZ_def xyY_to_XYZ_def CIE_E_K CIE_E_eq CIE_K_def)

subsection \<open>Polar forms\<close>





subsection \<open>DCDM transfer functions\<close>

lemma DCDM_decode_encode:
  assumes "0 \<le> (w::real)"
  shows "(w powr (1 / 2.6)) powr 2.6 = w"
  using assms by (simp add: powr_powr)

text \<open>
  Claim C8. On a value that is not negative \<open>oetf_DCDM\<close> is \<open>(v / 52.37)^(1/2.6)\<close>, times
  4095 for an integer code value, and \<open>eotf_DCDM\<close> is \<open>52.37 v'^2.6\<close>, after a division by
  4095 for an integer code value. For every \<open>v\<close> in \<open>[0, 1]\<close> decoding the encoded value
  gives \<open>v\<close> back, in the float mode and in the integer code value mode. Nothing is
  clamped: a value above 52.37 encodes above 1 (above 4095 as a code value), a value above
  1 decodes above 52.37, and a negative value gives \<^verbatim>\<open>nan\<close>, not 0.
\<close>

theorem DCDM_round_trip:
  "(0 \<le> v \<longrightarrow> oetf_DCDM v False = Some ((v / 52.37) powr (1 / 2.6))
               \<and> oetf_DCDM v True = Some ((v / 52.37) powr (1 / 2.6) * 4095))
   \<and> (0 \<le> v' \<longrightarrow> eotf_DCDM v' False = Some (52.37 * v' powr 2.6)
               \<and> eotf_DCDM v' True = Some (52.37 * (v' / 4095) powr 2.6))
   \<and> (0 \<le> v \<and> v \<le> 1 \<longrightarrow>
        (oetf_DCDM v False \<bind> (\<lambda>p. eotf_DCDM p False)) = Some v
        \<and> (oetf_DCDM v True \<bind> (\<lambda>p. eotf_DCDM p True)) = Some v)
   \<and> (52.37 < v \<longrightarrow> (\<exists>p. oetf_DCDM v False = Some p \<and> 1 < p)
                  \<and> (\<exists>p. oetf_DCDM v True = Some p \<and> 4095 < p))
   \<and> (1 < v' \<longrightarrow> (\<exists>w. eotf_DCDM v' False = Some w \<and> 52.37 < w))
   \<and> (n < 0 \<longrightarrow> oetf_DCDM n out_int = None \<and> eotf_DCDM n in_int = None)"
proof (intro conjI impI)
  assume v: "0 \<le> v"
  then show "oetf_DCDM v False = Some ((v / 52.37) powr (1 / 2.6))"
    and "oetf_DCDM v True = Some ((v / 52.37) powr (1 / 2.6) * 4095)"
    by (simp_all add: oetf_DCDM_def fpow_def)
next
  assume v: "0 \<le> v'"
  then show "eotf_DCDM v' False = Some (52.37 * v' powr 2.6)"
    and "eotf_DCDM v' True = Some (52.37 * (v' / 4095) powr 2.6)"
    by (simp_all add: eotf_DCDM_def fpow_def)
next
  assume v: "0 \<le> v \<and> v \<le> 1"
  then have w: "0 \<le> v / 52.37" by simp
  have p: "0 \<le> (v / 52.37) powr (1 / 2.6)" by simp
  have r: "52.37 * ((v / 52.37) powr (1 / 2.6)) powr 2.6 = v"
    unfolding DCDM_decode_encode [OF w] by simp
  from v p r show "(oetf_DCDM v False \<bind> (\<lambda>p. eotf_DCDM p False)) = Some v"
    by (simp add: oetf_DCDM_def eotf_DCDM_def fpow_def)
  from v p r show "(oetf_DCDM v True \<bind> (\<lambda>p. eotf_DCDM p True)) = Some v"
    by (simp add: oetf_DCDM_def eotf_DCDM_def fpow_def)
next
  assume v: "52.37 < v"
  then have "1 < v / 52.37" by simp
  then have g: "1 < (v / 52.37) powr (1 / 2.6)"
    using powr_less_mono2 [of "1 / 2.6" 1 "v / 52.37"] by simp
  then have g': "4095 < (v / 52.37) powr (1 / 2.6) * 4095" by simp
  have "oetf_DCDM v False = Some ((v / 52.37) powr (1 / 2.6))"
    using v by (simp add: oetf_DCDM_def fpow_def)
  with g show "\<exists>p. oetf_DCDM v False = Some p \<and> 1 < p" by blast
  have "oetf_DCDM v True = Some ((v / 52.37) powr (1 / 2.6) * 4095)"
    using v by (simp add: oetf_DCDM_def fpow_def)
  with g' show "\<exists>p. oetf_DCDM v True = Some p \<and> 4095 < p" by blast
next
  assume v: "1 < v'"
  then have "1 < v' powr 2.6"
    using powr_less_mono2 [of "2.6" 1 v'] by simp
  then have g: "52.37 < 52.37 * v' powr 2.6" by simp
  have "eotf_DCDM v' False = Some (52.37 * v' powr 2.6)"
    using v by (simp add: eotf_DCDM_def fpow_def)
  with g show "\<exists>w. eotf_DCDM v' False = Some w \<and> 52.37 < w" by blast
next
  assume n: "n < 0"
  then show "oetf_DCDM n out_int = None" "eotf_DCDM n in_int = None"
    by (simp_all add: oetf_DCDM_def eotf_DCDM_def fpow_def)
qed

theorem DCDM_round_trip_witness:
  "oetf_DCDM 0 False = Some 0 \<and> eotf_DCDM 1 False = Some 52.37
   \<and> eotf_DCDM 4095 True = Some 52.37
   \<and> (oetf_DCDM (1 / 2) False \<bind> (\<lambda>p. eotf_DCDM p False)) = Some (1 / 2)
   \<and> (oetf_DCDM (1 / 2) True \<bind> (\<lambda>p. eotf_DCDM p True)) = Some (1 / 2)
   \<and> (\<exists>p. oetf_DCDM 100 False = Some p \<and> 1 < p)
   \<and> (\<exists>w. eotf_DCDM 2 False = Some w \<and> 52.37 < w)
   \<and> oetf_DCDM (- 1) False = None \<and> eotf_DCDM (- 1) True = None"
proof -
  have "(0::real) \<le> 0" "(0::real) \<le> 1" by simp_all
  with DCDM_round_trip [of 0 1 "- 1" False True]
  have a: "oetf_DCDM 0 False = Some ((0 / 52.37) powr (1 / 2.6))"
    and b: "eotf_DCDM 1 False = Some (52.37 * 1 powr 2.6)"
    by blast+
  have "(0::real) \<le> 1 / 2 \<and> (1 / 2 :: real) \<le> 1" "(0::real) \<le> 4095" by simp_all
  with DCDM_round_trip [of "1 / 2" 4095]
  have c: "eotf_DCDM 4095 True = Some (52.37 * (4095 / 4095) powr 2.6)"
    and d: "(oetf_DCDM (1 / 2) False \<bind> (\<lambda>p. eotf_DCDM p False)) = Some (1 / 2)"
    and e: "(oetf_DCDM (1 / 2) True \<bind> (\<lambda>p. eotf_DCDM p True)) = Some (1 / 2)"
    by blast+
  have "(52.37::real) < 100" "(1::real) < 2" "- 1 < (0::real)" by simp_all
  with DCDM_round_trip [of 100 2 "- 1" False True]
  have f: "\<exists>p. oetf_DCDM 100 False = Some p \<and> 1 < p"
    and g: "\<exists>w. eotf_DCDM 2 False = Some w \<and> 52.37 < w"
    and h: "oetf_DCDM (- 1) False = None" "eotf_DCDM (- 1) True = None"
    by blast+
  from a b c have "oetf_DCDM 0 False = Some 0" "eotf_DCDM 1 False = Some 52.37"
    "eotf_DCDM 4095 True = Some 52.37"
    by simp_all
  with d e f g h show ?thesis by blast
qed

subsection \<open>CIE Luv and CIE Lab: round trips\<close>

text \<open>Cube and cube root, and the position of a cube relative to the threshold.\<close>

lemma cube_cbrt: "0 \<le> x \<Longrightarrow> (x powr (1 / 3)) ^ 3 = (x::real)"
proof -
  assume x: "0 \<le> x"
  have "(x powr (1 / 3)) ^ 3 = (x powr (1 / 3)) powr 3"
    by (simp add: powr_numeral)
  also have "\<dots> = x powr 1"
    by (simp add: powr_powr)
  finally show ?thesis using x by simp
qed

lemma cbrt_cube: "0 \<le> x \<Longrightarrow> (x ^ 3) powr (1 / 3) = (x::real)"
proof -
  assume x: "0 \<le> x"
  have "(x ^ 3) powr (1 / 3) = (x powr 3) powr (1 / 3)"
    using x by (simp add: powr_numeral)
  also have "\<dots> = x powr 1"
    by (simp add: powr_powr)
  finally show ?thesis using x by simp
qed

lemma cube_gt_CIE_E: "CIE_E < f ^ 3 \<longleftrightarrow> 6 / 29 < (f::real)"
proof
  assume a: "CIE_E < f ^ 3"
  show "6 / 29 < f"
  proof (rule ccontr)
    assume "\<not> 6 / 29 < f"
    then have le: "f \<le> 6 / 29" by simp
    show False
    proof (cases "0 \<le> f")
      case True
      then have "f ^ 3 \<le> (6 / 29) ^ 3" using le by (rule power_mono[rotated])
      with a show False by (simp add: CIE_E_def)
    next
      case False
      then have "f ^ 3 < 0" by (simp add: power_less_zero_eq)
      with a show False by (simp add: CIE_E_eq)
    qed
  qed
next
  assume "6 / 29 < f"
  then have "(6 / 29) ^ 3 < f ^ 3"
    by (intro power_strict_mono) simp_all
  then show "CIE_E < f ^ 3" by (simp add: CIE_E_def)
qed

lemma cbrt_gt_CIE_E: "CIE_E < t \<Longrightarrow> 6 / 29 < t powr (1 / 3)"
proof -
  assume a: "CIE_E < t"
  then have t: "0 \<le> t" by (simp add: CIE_E_eq)
  from a have "CIE_E < (t powr (1 / 3)) ^ 3" by (simp add: cube_cbrt [OF t])
  then show ?thesis by (simp add: cube_gt_CIE_E)
qed

text \<open>
  The piecewise rule that \<open>XYZ_to_Lab\<close> applies to a ratio and the rule that \<open>Lab_to_XYZ\<close>
  applies to a channel undo each other; the test of the Y channel on \<open>L\<close> is the same
  rule written on \<open>L\<close>.
\<close>

lemma Lab_channel_inverse:
  fixes t :: real
  assumes "f = (if t > CIE_E then t powr (1 / 3) else (CIE_K * t + 16) / 116)"
  shows "(if f ^ 3 > CIE_E then f ^ 3 else (116 * f - 16) / CIE_K) = t"
proof (cases "t > CIE_E")
  case True
  then have t: "0 \<le> t" by (simp add: CIE_E_eq)
  from True have f: "f = t powr (1 / 3)" by (simp add: assms)
  then have "f ^ 3 = t" by (simp add: cube_cbrt [OF t])
  with True show ?thesis by simp
next
  case False
  then have f: "f = (CIE_K * t + 16) / 116" by (simp add: assms)
  from False have "f \<le> 6 / 29" unfolding f by (simp add: CIE_E_eq CIE_K_def)
  then have "\<not> CIE_E < f ^ 3" by (simp add: cube_gt_CIE_E)
  moreover have "(116 * f - 16) / CIE_K = t" unfolding f by (simp add: CIE_K_def field_simps)
  ultimately show ?thesis by simp
qed

lemma Lab_channel_forward:
  fixes f :: real
  assumes "t = (if f ^ 3 > CIE_E then f ^ 3 else (116 * f - 16) / CIE_K)"
  shows "(if t > CIE_E then t powr (1 / 3) else (CIE_K * t + 16) / 116) = f"
proof (cases "f ^ 3 > CIE_E")
  case True
  then have "6 / 29 < f" by (simp add: cube_gt_CIE_E)
  then have f: "0 \<le> f" by simp
  from True have t: "t = f ^ 3" by (simp add: assms)
  with True show ?thesis by (simp add: cbrt_cube [OF f])
next
  case False
  then have t: "t = (116 * f - 16) / CIE_K" by (simp add: assms)
  from False have "f \<le> 6 / 29" by (simp add: cube_gt_CIE_E)
  then have "\<not> CIE_E < t" unfolding t by (simp add: CIE_E_eq CIE_K_def)
  moreover have "(CIE_K * t + 16) / 116 = f" unfolding t by (simp add: CIE_K_def field_simps)
  ultimately show ?thesis by simp
qed

lemma Lab_Y_channel:
  "(if L > CIE_K * CIE_E then ((L + 16) / 116) ^ 3 else L / CIE_K)
   = (if ((L + 16) / 116) ^ 3 > CIE_E then ((L + 16) / 116) ^ 3
      else (116 * ((L + 16) / 116) - 16) / CIE_K)"
proof -
  have "L > CIE_K * CIE_E \<longleftrightarrow> ((L + 16) / 116) ^ 3 > CIE_E"
    by (simp add: cube_gt_CIE_E CIE_E_K) 
  moreover have "116 * ((L + 16) / 116) - 16 = L" by (simp add: field_simps)
  ultimately show ?thesis by simp
qed

lemma Lab_forward_inverse:
  assumes ill: "xy_to_XYZ illuminant = (Xr, Yr, Zr)"
    and nz: "Xr \<noteq> 0" "Yr \<noteq> 0" "Zr \<noteq> 0"
  shows "map_option (\<lambda>Lab. Lab_to_XYZ Lab illuminant) (XYZ_to_Lab (X, Y, Z) illuminant)
         = Some (X, Y, Z)"
proof -
  define fx where "fx = (if X / Xr > CIE_E then (X / Xr) powr (1 / 3)
                         else (CIE_K * (X / Xr) + 16) / 116)"
  define fy where "fy = (if Y / Yr > CIE_E then (Y / Yr) powr (1 / 3)
                         else (CIE_K * (Y / Yr) + 16) / 116)"
  define fz where "fz = (if Z / Zr > CIE_E then (Z / Zr) powr (1 / 3)
                         else (CIE_K * (Z / Zr) + 16) / 116)"
  define L where "L = 116 * fy - 16"
  define a where "a = 500 * (fx - fy)"
  define b where "b = 200 * (fy - fz)"
  have fwd: "XYZ_to_Lab (X, Y, Z) illuminant = Some (L, a, b)"
    unfolding XYZ_to_Lab_def ill L_def a_def b_def fx_def fy_def fz_def
    using nz by (simp add: fdiv_def Let_def)
  have e1: "(L + 16) / 116 = fy" by (simp add: L_def field_simps)
  have e2: "a / 500 + fy = fx" by (simp add: a_def field_simps)
  have e3: "fy - b / 200 = fz" by (simp add: b_def field_simps)
  have cx: "(if fx ^ 3 > CIE_E then fx ^ 3 else (116 * fx - 16) / CIE_K) = X / Xr"
    by (rule Lab_channel_inverse) (simp add: fx_def)
  have "(if L > CIE_K * CIE_E then ((L + 16) / 116) ^ 3 else L / CIE_K)
        = (if ((L + 16) / 116) ^ 3 > CIE_E then ((L + 16) / 116) ^ 3
           else (116 * ((L + 16) / 116) - 16) / CIE_K)"
    by (rule Lab_Y_channel)
  also have "\<dots> = (if fy ^ 3 > CIE_E then fy ^ 3 else (116 * fy - 16) / CIE_K)"
    unfolding e1 ..
  also have "\<dots> = Y / Yr"
    by (rule Lab_channel_inverse) (simp add: fy_def)
  finally have cy: "(if L > CIE_K * CIE_E then ((L + 16) / 116) ^ 3 else L / CIE_K) = Y / Yr" .
  have cz: "(if fz ^ 3 > CIE_E then fz ^ 3 else (116 * fz - 16) / CIE_K) = Z / Zr"
    by (rule Lab_channel_inverse) (simp add: fz_def)
  have cy': "(if L > CIE_K * CIE_E then fy ^ 3 else L / CIE_K) = Y / Yr"
    using cy unfolding e1 .
  have "Lab_to_XYZ (L, a, b) illuminant = (X / Xr * Xr, Y / Yr * Yr, Z / Zr * Zr)"
    unfolding Lab_to_XYZ_def ill prod.case Let_def e1 e2 e3 cx cy' cz ..
  then have "Lab_to_XYZ (L, a, b) illuminant = (X, Y, Z)"
    using nz by simp
  with fwd show ?thesis by simp
qed

lemma Lab_inverse_forward:
  assumes ill: "xy_to_XYZ illuminant = (Xr, Yr, Zr)"
    and nz: "Xr \<noteq> 0" "Yr \<noteq> 0" "Zr \<noteq> 0"
  shows "XYZ_to_Lab (Lab_to_XYZ (L, a, b) illuminant) illuminant = Some (L, a, b)"
proof -
  define fy where "fy = (L + 16) / 116"
  define fx where "fx = a / 500 + fy"
  define fz where "fz = fy - b / 200"
  define xr where "xr = (if fx ^ 3 > CIE_E then fx ^ 3 else (116 * fx - 16) / CIE_K)"
  define yr where "yr = (if fy ^ 3 > CIE_E then fy ^ 3 else (116 * fy - 16) / CIE_K)"
  define zr where "zr = (if fz ^ 3 > CIE_E then fz ^ 3 else (116 * fz - 16) / CIE_K)"
  have y: "(if L > CIE_K * CIE_E then ((L + 16) / 116) ^ 3 else L / CIE_K) = yr"
    unfolding Lab_Y_channel yr_def fy_def ..
  have inv: "Lab_to_XYZ (L, a, b) illuminant = (xr * Xr, yr * Yr, zr * Zr)"
    unfolding Lab_to_XYZ_def ill prod.case Let_def y
    unfolding xr_def zr_def fx_def fz_def fy_def ..
  have cx: "(if xr > CIE_E then xr powr (1 / 3) else (CIE_K * xr + 16) / 116) = fx"
    by (rule Lab_channel_forward) (simp add: xr_def)
  have cy: "(if yr > CIE_E then yr powr (1 / 3) else (CIE_K * yr + 16) / 116) = fy"
    by (rule Lab_channel_forward) (simp add: yr_def)
  have cz: "(if zr > CIE_E then zr powr (1 / 3) else (CIE_K * zr + 16) / 116) = fz"
    by (rule Lab_channel_forward) (simp add: zr_def)
  have q: "xr * Xr / Xr = xr" "yr * Yr / Yr = yr" "zr * Zr / Zr = zr"
    using nz by simp_all
  have "XYZ_to_Lab (xr * Xr, yr * Yr, zr * Zr) illuminant
        = Some (116 * fy - 16, 500 * (fx - fy), 200 * (fy - fz))"
    unfolding XYZ_to_Lab_def ill prod.case using nz
    by (simp add: fdiv_def Let_def cx cy cz)
  moreover have "116 * fy - 16 = L" "500 * (fx - fy) = a" "200 * (fy - fz) = b"
    by (simp_all add: fy_def fx_def fz_def field_simps)
  ultimately show ?thesis by (simp add: inv)
qed

text \<open>The lightness rules of the Luv pair undo each other, and \<open>L\<close> vanishes only with \<open>Y\<close>.\<close>

lemma Luv_L_inverse:
  fixes Y :: real
  assumes "L = (if Y > CIE_E then 116 * Y powr (1 / 3) - 16 else CIE_K * Y)"
  shows "(if L > CIE_E * CIE_K then ((L + 16) / 116) ^ 3 else L / CIE_K) = Y"
proof (cases "Y > CIE_E")
  case True
  then have y: "0 \<le> Y" by (simp add: CIE_E_eq)
  from True have L: "L = 116 * Y powr (1 / 3) - 16" by (simp add: assms)
  from True have "6 / 29 < Y powr (1 / 3)" by (rule cbrt_gt_CIE_E)
  then have "L > CIE_E * CIE_K" unfolding L by (simp add: CIE_E_K)
  moreover have "(L + 16) / 116 = Y powr (1 / 3)" unfolding L by (simp add: field_simps)
  ultimately show ?thesis by (simp add: cube_cbrt [OF y])
next
  case False
  then have L: "L = CIE_K * Y" by (simp add: assms)
  from False have "\<not> L > CIE_E * CIE_K" unfolding L by (simp add: CIE_E_eq CIE_K_def)
  moreover have "L / CIE_K = Y" unfolding L by (simp add: CIE_K_def)
  ultimately show ?thesis by simp
qed

lemma Luv_L_forward:
  fixes L :: real
  assumes "Y = (if L > CIE_E * CIE_K then ((L + 16) / 116) ^ 3 else L / CIE_K)"
  shows "(if Y > CIE_E then 116 * Y powr (1 / 3) - 16 else CIE_K * Y) = L"
proof (cases "L > CIE_E * CIE_K")
  case True
  then have g: "6 / 29 < (L + 16) / 116" by (simp add: CIE_E_K)
  then have p: "0 \<le> (L + 16) / 116" by simp
  from True have Y: "Y = ((L + 16) / 116) ^ 3" by (simp add: assms)
  from g have "Y > CIE_E" unfolding Y by (simp only: cube_gt_CIE_E)
  moreover have "116 * Y powr (1 / 3) - 16 = L"
    unfolding Y cbrt_cube [OF p] by (simp add: field_simps)
  ultimately show ?thesis by simp
next
  case False
  then have Y: "Y = L / CIE_K" by (simp add: assms)
  from False have "\<not> Y > CIE_E" unfolding Y by (simp add: CIE_E_K CIE_E_eq CIE_K_def)
  moreover have "CIE_K * Y = L" unfolding Y by (simp add: CIE_K_def)
  ultimately show ?thesis by simp
qed

lemma Luv_L_zero:
  fixes Y :: real
  assumes "L = (if Y > CIE_E then 116 * Y powr (1 / 3) - 16 else CIE_K * Y)"
  shows "L = 0 \<longleftrightarrow> Y = 0"
proof (cases "Y > CIE_E")
  case True
  then have "6 / 29 < Y powr (1 / 3)" by (rule cbrt_gt_CIE_E)
  with True show ?thesis by (simp add: assms CIE_E_eq)
next
  case False
  then show ?thesis by (simp add: assms CIE_K_def)
qed

lemma XYZ_to_Luv_Some:
  assumes ill: "xy_to_XYZ illuminant = (Xr, Yr, Zr)"
    and nz: "Yr \<noteq> 0" "X + 15 * Y + 3 * Z \<noteq> 0" "Xr + 15 * Yr + 3 * Zr \<noteq> 0"
    and L: "L = (if Y / Yr > CIE_E then 116 * (Y / Yr) powr (1 / 3) - 16 else CIE_K * (Y / Yr))"
  shows "XYZ_to_Luv (X, Y, Z) illuminant =
    Some (L, 13 * L * (4 * X / (X + 15 * Y + 3 * Z) - 4 * Xr / (Xr + 15 * Yr + 3 * Zr)),
          13 * L * (9 * Y / (X + 15 * Y + 3 * Z) - 9 * Yr / (Xr + 15 * Yr + 3 * Zr)))"
  unfolding XYZ_to_Luv_def ill prod.case using nz
  by (simp add: fdiv_def Let_def L)

lemma Luv_to_XYZ_Some:
  assumes ill: "xy_to_XYZ illuminant = (Xr, Yr, Zr)"
    and D: "Xr + 15 * Yr + 3 * Zr \<noteq> 0"
    and U: "u + 13 * L * (4 * Xr / (Xr + 15 * Yr + 3 * Zr)) \<noteq> 0"
    and V: "v + 13 * L * (9 * Yr / (Xr + 15 * Yr + 3 * Zr)) \<noteq> 0"
    and Y: "Y = (if L > CIE_E * CIE_K then ((L + 16) / 116) ^ 3 else L / CIE_K)"
    and a: "a = 1 / 3 * (52 * L / (u + 13 * L * (4 * Xr / (Xr + 15 * Yr + 3 * Zr))) - 1)"
    and d: "d = Y * (39 * L / (v + 13 * L * (9 * Yr / (Xr + 15 * Yr + 3 * Zr))) - 5)"
    and ac: "a - (- 1 / 3) \<noteq> 0"
  shows "Luv_to_XYZ (L, u, v) illuminant =
    Some ((d - (- 5 * Y)) / (a - (- 1 / 3)), Y, (d - (- 5 * Y)) / (a - (- 1 / 3)) * a + (- 5 * Y))"
proof -
  have 1: "fdiv (4 * Xr) (Xr + 15 * Yr + 3 * Zr) = Some (4 * Xr / (Xr + 15 * Yr + 3 * Zr))"
    and 2: "fdiv (9 * Yr) (Xr + 15 * Yr + 3 * Zr) = Some (9 * Yr / (Xr + 15 * Yr + 3 * Zr))"
    using D by (simp_all add: fdiv_def)
  have 3: "fdiv (52 * L) (u + 13 * L * (4 * Xr / (Xr + 15 * Yr + 3 * Zr)))
      = Some (52 * L / (u + 13 * L * (4 * Xr / (Xr + 15 * Yr + 3 * Zr))))"
    using U by (simp add: fdiv_def)
  have 4: "fdiv (39 * L) (v + 13 * L * (9 * Yr / (Xr + 15 * Yr + 3 * Zr)))
      = Some (39 * L / (v + 13 * L * (9 * Yr / (Xr + 15 * Yr + 3 * Zr))))"
    using V by (simp add: fdiv_def)
  have 5: "fdiv (d - (- 5 * Y)) (a - (- 1 / 3)) = Some ((d - (- 5 * Y)) / (a - (- 1 / 3)))"
    using ac by (simp add: fdiv_def)
  show ?thesis
    unfolding Luv_to_XYZ_def ill prod.case Let_def 1 2 3 4 bind.bind_lunit
      Y [symmetric] a [symmetric] d [symmetric] 5 ..
qed

lemma Luv_forward_inverse:
  assumes ill: "xy_to_XYZ illuminant = (Xr, Yr, Zr)"
    and Yr: "Yr = 1"
    and D: "Xr + 15 * Yr + 3 * Zr \<noteq> 0"
    and X: "X \<noteq> 0" and Y: "Y \<noteq> 0" and S: "X + 15 * Y + 3 * Z \<noteq> 0"
  shows "XYZ_to_Luv (X, Y, Z) illuminant \<bind> (\<lambda>Luv. Luv_to_XYZ Luv illuminant)
         = Some (X, Y, Z)"
proof -
  define S' where "S' = X + 15 * Y + 3 * Z"
  define ur where "ur = 4 * Xr / (Xr + 15 * Yr + 3 * Zr)"
  define vr where "vr = 9 * Yr / (Xr + 15 * Yr + 3 * Zr)"
  define L where "L = (if Y / Yr > CIE_E then 116 * (Y / Yr) powr (1 / 3) - 16
                       else CIE_K * (Y / Yr))"
  define u where "u = 13 * L * (4 * X / S' - ur)"
  define v where "v = 13 * L * (9 * Y / S' - vr)"
  have S': "S' \<noteq> 0" using S by (simp add: S'_def)
  have Yr0: "Yr \<noteq> 0" using Yr by simp
  have fwd: "XYZ_to_Luv (X, Y, Z) illuminant = Some (L, u, v)"
    unfolding u_def v_def ur_def vr_def S'_def
    by (rule XYZ_to_Luv_Some [OF ill Yr0 S D L_def])
  have LY: "L = (if Y > CIE_E then 116 * Y powr (1 / 3) - 16 else CIE_K * Y)"
    by (simp add: L_def Yr)
  have L0: "L \<noteq> 0" using Luv_L_zero [OF LY] Y by simp
  have U: "u + 13 * L * ur = 52 * L * X / S'"
    by (simp add: u_def algebra_simps)
  have V: "v + 13 * L * vr = 117 * L * Y / S'"
    by (simp add: v_def algebra_simps)
  have U0: "u + 13 * L * ur \<noteq> 0" unfolding U using L0 X S' by simp
  have V0: "v + 13 * L * vr \<noteq> 0" unfolding V using L0 Y S' by simp
  have q: "52 * L / (u + 13 * L * ur) = S' / X"
    unfolding U using L0 X S' by (simp add: field_simps)
  have r: "39 * L / (v + 13 * L * vr) = S' / (3 * Y)"
    unfolding V using L0 Y S' by (simp add: field_simps)
  have Yinv: "Y = (if L > CIE_E * CIE_K then ((L + 16) / 116) ^ 3 else L / CIE_K)"
    by (rule Luv_L_inverse [OF LY, symmetric])
  define a where "a = 1 / 3 * (52 * L / (u + 13 * L * ur) - 1)"
  define d where "d = Y * (39 * L / (v + 13 * L * vr) - 5)"
  have a': "a = 1 / 3 * (S' / X - 1)" by (simp add: a_def q)
  have d': "d = Y * (S' / (3 * Y) - 5)" by (simp add: d_def r)
  have ac: "a - (- 1 / 3) = S' / (3 * X)"
    unfolding a' using X by (simp add: field_simps)
  have ac0: "a - (- 1 / 3) \<noteq> 0" unfolding ac using S' X by simp
  have db: "d - (- 5 * Y) = S' / 3"
    unfolding d' using Y by (simp add: field_simps)
  have X': "(d - (- 5 * Y)) / (a - (- 1 / 3)) = X"
    unfolding db ac using S' X by simp
  have Z': "X * a + (- 5 * Y) = Z"
    unfolding a' using X by (simp add: S'_def field_simps)
  have "Luv_to_XYZ (L, u, v) illuminant =
    Some ((d - (- 5 * Y)) / (a - (- 1 / 3)), Y, (d - (- 5 * Y)) / (a - (- 1 / 3)) * a + (- 5 * Y))"
    by (rule Luv_to_XYZ_Some [OF ill D U0 [unfolded ur_def] V0 [unfolded vr_def] Yinv
          a_def [unfolded ur_def] d_def [unfolded vr_def] ac0])
  then have "Luv_to_XYZ (L, u, v) illuminant = Some (X, Y, Z)"
    unfolding X' Z' .
  with fwd show ?thesis by simp
qed

lemma Luv_inverse_forward:
  assumes ill: "xy_to_XYZ illuminant = (Xr, Yr, Zr)"
    and Yr: "Yr = 1"
    and D: "Xr + 15 * Yr + 3 * Zr \<noteq> 0"
    and L0: "L \<noteq> 0"
    and U0: "u + 13 * L * (4 * Xr / (Xr + 15 * Yr + 3 * Zr)) \<noteq> 0"
    and V0: "v + 13 * L * (9 * Yr / (Xr + 15 * Yr + 3 * Zr)) \<noteq> 0"
  shows "Luv_to_XYZ (L, u, v) illuminant \<bind> (\<lambda>XYZ. XYZ_to_Luv XYZ illuminant)
         = Some (L, u, v)"
proof -
  define ur where "ur = 4 * Xr / (Xr + 15 * Yr + 3 * Zr)"
  define vr where "vr = 9 * Yr / (Xr + 15 * Yr + 3 * Zr)"
  define U where "U = u + 13 * L * ur"
  define V where "V = v + 13 * L * vr"
  define Y where "Y = (if L > CIE_E * CIE_K then ((L + 16) / 116) ^ 3 else L / CIE_K)"
  define a where "a = 1 / 3 * (52 * L / U - 1)"
  define d where "d = Y * (39 * L / V - 5)"
  define X where "X = (d - (- 5 * Y)) / (a - (- 1 / 3))"
  define Z where "Z = X * a + (- 5 * Y)"
  have U: "U \<noteq> 0" and V: "V \<noteq> 0"
    using U0 V0 by (simp_all add: U_def V_def ur_def vr_def)
  have LY: "(if Y > CIE_E then 116 * Y powr (1 / 3) - 16 else CIE_K * Y) = L"
    by (rule Luv_L_forward [OF Y_def])
  have Y0: "Y \<noteq> 0" using Luv_L_zero [OF LY [symmetric]] L0 by simp
  have ac: "a - (- 1 / 3) = 52 * L / (3 * U)"
    unfolding a_def using U by (simp add: field_simps)
  have ac0: "a - (- 1 / 3) \<noteq> 0" unfolding ac using L0 U by simp
  have inv: "Luv_to_XYZ (L, u, v) illuminant = Some (X, Y, Z)"
    unfolding Z_def X_def
    by (rule Luv_to_XYZ_Some [OF ill D U0 V0 Y_def
          a_def [unfolded U_def ur_def] d_def [unfolded V_def vr_def] ac0])
  have db: "d - (- 5 * Y) = 39 * Y * L / V"
    unfolding d_def using V by (simp add: field_simps)
  have Xv: "X = 9 * Y * U / (4 * V)"
    unfolding X_def db ac using L0 U V by (simp add: field_simps)
  have a3: "1 + 3 * a = 52 * L / U"
    unfolding a_def using U by (simp add: field_simps)
  have "X + 15 * Y + 3 * Z = X * (1 + 3 * a)"
    by (simp add: Z_def algebra_simps)
  also have "\<dots> = 117 * Y * L / V"
    unfolding a3 Xv using U V by (simp add: field_simps)
  finally have S: "X + 15 * Y + 3 * Z = 117 * Y * L / V" .
  have S0: "X + 15 * Y + 3 * Z \<noteq> 0"
    unfolding S using Y0 L0 V by simp
  have "4 * X / (X + 15 * Y + 3 * Z) = 4 * X / (117 * Y * L / V)"
    by (simp only: S)
  also have "\<dots> = U / (13 * L)"
    unfolding Xv using Y0 L0 U V by (simp add: field_simps)
  finally have up: "4 * X / (X + 15 * Y + 3 * Z) = U / (13 * L)" .
  have vp: "9 * Y / (X + 15 * Y + 3 * Z) = V / (13 * L)"
    unfolding S using Y0 L0 V by (simp add: field_simps)
  have Yr0: "Yr \<noteq> 0" using Yr by simp
  have LY': "L = (if Y / Yr > CIE_E then 116 * (Y / Yr) powr (1 / 3) - 16 else CIE_K * (Y / Yr))"
    using LY [symmetric] by (simp add: Yr)
  have "XYZ_to_Luv (X, Y, Z) illuminant =
    Some (L, 13 * L * (4 * X / (X + 15 * Y + 3 * Z) - 4 * Xr / (Xr + 15 * Yr + 3 * Zr)),
          13 * L * (9 * Y / (X + 15 * Y + 3 * Z) - 9 * Yr / (Xr + 15 * Yr + 3 * Zr)))"
    by (rule XYZ_to_Luv_Some [OF ill Yr0 S0 D LY'])
  moreover have "13 * L * (U / (13 * L) - ur) = u"
    using L0 by (simp add: U_def field_simps)
  moreover have "13 * L * (V / (13 * L) - vr) = v"
    using L0 by (simp add: V_def field_simps)
  ultimately have "XYZ_to_Luv (X, Y, Z) illuminant = Some (L, u, v)"
    unfolding up vp ur_def [symmetric] vr_def [symmetric] by simp
  with inv show ?thesis by simp
qed

lemma valid_illuminant_white:
  assumes "0 < x" "0 < y" "x + y < 1"
  shows "xy_to_XYZ (x, y) = (x / y, 1, (1 - x - y) / y)"
    and "x / y \<noteq> 0" and "(1 - x - y) / y \<noteq> 0"
    and "x / y + 15 * 1 + 3 * ((1 - x - y) / y) \<noteq> 0"
proof -
  show "xy_to_XYZ (x, y) = (x / y, 1, (1 - x - y) / y)"
    using assms by (simp add: xy_to_XYZ_def xyY_to_XYZ_def)
  show "x / y \<noteq> 0" "(1 - x - y) / y \<noteq> 0" using assms by simp_all
  have "0 < x / y" "0 < (1 - x - y) / y" using assms by simp_all
  then show "x / y + 15 * 1 + 3 * ((1 - x - y) / y) \<noteq> 0" by linarith
qed

text \<open>
  Claim C6, as stated, at two stimuli with components that are not negative, under D50.
  For \<open>(1, 0, 0)\<close>, without luminance, \<open>XYZ_to_Luv\<close> returns \<open>(0, 0, 0)\<close>, on which
  \<open>Luv_to_XYZ\<close> divides \<open>52 L = 0\<close> by \<open>u + 13 L u'r = 0\<close>: its result is not a matrix of
  finite numbers, and not \<open>(1, 0, 0)\<close>. For \<open>(0, 1, 1)\<close>, with \<open>X = 0\<close>, the divisor
  \<open>u + 13 L u'r\<close> of \<open>Luv_to_XYZ\<close> is zero again.
\<close>

theorem Luv_round_trip_counterexample:
  "(0::real) \<le> 1 \<and> (0::real) \<le> 0
   \<and> XYZ_to_Luv (1, 0, 0) (0.34567, 0.3585) = Some (0, 0, 0)
   \<and> Luv_to_XYZ (0, 0, 0) (0.34567, 0.3585) = None
   \<and> (XYZ_to_Luv (1, 0, 0) (0.34567, 0.3585) \<bind> (\<lambda>Luv. Luv_to_XYZ Luv (0.34567, 0.3585)))
       \<noteq> Some (1, 0, 0)
   \<and> (XYZ_to_Luv (0, 1, 1) (0.34567, 0.3585) \<bind> (\<lambda>Luv. Luv_to_XYZ Luv (0.34567, 0.3585)))
       \<noteq> Some (0, 1, 1)"
proof -
  have a: "XYZ_to_Luv (1, 0, 0) (0.34567, 0.3585) = Some (0, 0, 0)"
    by (simp add: XYZ_to_Luv_def xy_to_XYZ_def xyY_to_XYZ_def fdiv_def Let_def CIE_E_eq)
  have b: "Luv_to_XYZ (0, 0, 0) (0.34567, 0.3585) = None"
    by (simp add: Luv_to_XYZ_def xy_to_XYZ_def xyY_to_XYZ_def fdiv_def Let_def)
  have c: "XYZ_to_Luv (0, 1, 1) (0.34567, 0.3585)
           = Some (100, 13 * 100 * (0 - 4 * (0.34567 / 0.3585)
                    / (0.34567 / 0.3585 + 15 * 1 + 3 * ((1 - 0.34567 - 0.3585) / 0.3585))),
                   13 * 100 * (9 * 1 / (0 + 15 * 1 + 3 * 1) - 9 * 1
                    / (0.34567 / 0.3585 + 15 * 1 + 3 * ((1 - 0.34567 - 0.3585) / 0.3585))))"
    by (simp add: XYZ_to_Luv_def xy_to_XYZ_def xyY_to_XYZ_def fdiv_def Let_def CIE_E_eq)
  have d: "Luv_to_XYZ (100, 13 * 100 * (0 - 4 * (0.34567 / 0.3585)
                    / (0.34567 / 0.3585 + 15 * 1 + 3 * ((1 - 0.34567 - 0.3585) / 0.3585))),
                   13 * 100 * (9 * 1 / (0 + 15 * 1 + 3 * 1) - 9 * 1
                    / (0.34567 / 0.3585 + 15 * 1 + 3 * ((1 - 0.34567 - 0.3585) / 0.3585))))
              (0.34567, 0.3585) = None"
    by (simp add: Luv_to_XYZ_def xy_to_XYZ_def xyY_to_XYZ_def fdiv_def Let_def)
  have e: "(XYZ_to_Luv (1, 0, 0) (0.34567, 0.3585) \<bind> (\<lambda>Luv. Luv_to_XYZ Luv (0.34567, 0.3585)))
       = None"
    by (simp only: a bind.bind_lunit b)
  have f: "(XYZ_to_Luv (0, 1, 1) (0.34567, 0.3585) \<bind> (\<lambda>Luv. Luv_to_XYZ Luv (0.34567, 0.3585)))
       = None"
    by (simp only: c bind.bind_lunit d)
  have g: "(XYZ_to_Luv (1, 0, 0) (0.34567, 0.3585) \<bind> (\<lambda>Luv. Luv_to_XYZ Luv (0.34567, 0.3585)))
       \<noteq> Some (1, 0, 0)"
    unfolding e by simp
  have h: "(XYZ_to_Luv (0, 1, 1) (0.34567, 0.3585) \<bind> (\<lambda>Luv. Luv_to_XYZ Luv (0.34567, 0.3585)))
       \<noteq> Some (0, 1, 1)"
    unfolding f by simp
  have z: "(0::real) \<le> 1" "(0::real) \<le> 0" by simp_all
  from z a b g h show ?thesis by blast
qed

text \<open>
  Claim C6, amended. Let the illuminant \<open>(x, y)\<close> have \<open>x > 0\<close>, \<open>y > 0\<close> and \<open>x + y < 1\<close>,
  and let \<open>(Xr, Yr, Zr)\<close> be its reference white. Then, exactly and on both sides of the
  threshold:
  \<^item> \<open>Luv_to_XYZ\<close> after \<open>XYZ_to_Luv\<close> gives back every \<open>(X, Y, Z)\<close> with \<open>X > 0\<close>, \<open>Y > 0\<close>
    and \<open>Z \<ge> 0\<close>, and \<open>XYZ_to_Luv\<close> after \<open>Luv_to_XYZ\<close> gives back the Luv matrix of such a
    stimulus;
  \<^item> \<open>XYZ_to_Luv\<close> after \<open>Luv_to_XYZ\<close> gives back every \<open>(L, u, v)\<close> with \<open>L \<noteq> 0\<close> on which
    the divisors \<open>u + 13 L u'r\<close> and \<open>v + 13 L v'r\<close> of \<open>Luv_to_XYZ\<close> are not zero;
  \<^item> \<open>Lab_to_XYZ\<close> after \<open>XYZ_to_Lab\<close> gives back every \<open>(X, Y, Z)\<close> with components that
    are not negative;
  \<^item> \<open>XYZ_to_Lab\<close> after \<open>Lab_to_XYZ\<close> gives back every \<open>(L, a, b)\<close>.
\<close>

theorem Luv_Lab_round_trip:
  assumes valid: "0 < fst illuminant" "0 < snd illuminant" "fst illuminant + snd illuminant < 1"
    and ill: "xy_to_XYZ illuminant = (Xr, Yr, Zr)"
  shows "(0 < X \<and> 0 < Y \<and> 0 \<le> Z \<longrightarrow>
           XYZ_to_Luv (X, Y, Z) illuminant \<bind> (\<lambda>Luv. Luv_to_XYZ Luv illuminant)
             = Some (X, Y, Z)
           \<and> (\<exists>Luv. XYZ_to_Luv (X, Y, Z) illuminant = Some Luv
                \<and> Luv_to_XYZ Luv illuminant \<bind> (\<lambda>XYZ. XYZ_to_Luv XYZ illuminant) = Some Luv))
    \<and> (L \<noteq> 0 \<and> u + 13 * L * (4 * Xr / (Xr + 15 * Yr + 3 * Zr)) \<noteq> 0
         \<and> v + 13 * L * (9 * Yr / (Xr + 15 * Yr + 3 * Zr)) \<noteq> 0 \<longrightarrow>
           Luv_to_XYZ (L, u, v) illuminant \<bind> (\<lambda>XYZ. XYZ_to_Luv XYZ illuminant)
             = Some (L, u, v))
    \<and> (0 \<le> X' \<and> 0 \<le> Y' \<and> 0 \<le> Z' \<longrightarrow>
           map_option (\<lambda>Lab. Lab_to_XYZ Lab illuminant) (XYZ_to_Lab (X', Y', Z') illuminant)
             = Some (X', Y', Z'))
    \<and> XYZ_to_Lab (Lab_to_XYZ (L', a, b) illuminant) illuminant = Some (L', a, b)"
proof -
  obtain x y where xy: "illuminant = (x, y)" by (cases illuminant)
  have pos: "0 < x" "0 < y" "x + y < 1" using valid by (simp_all add: xy)
  note w = valid_illuminant_white [OF pos]
  have white: "Xr = x / y" "Yr = 1" "Zr = (1 - x - y) / y"
    using ill w(1) by (simp_all add: xy)
  have nz: "Xr \<noteq> 0" "Yr \<noteq> 0" "Zr \<noteq> 0"
    using w(2,3) by (simp_all add: white)
  have D: "Xr + 15 * Yr + 3 * Zr \<noteq> 0"
    using w(4) by (simp add: white)
  have luv: "XYZ_to_Luv (X, Y, Z) illuminant \<bind> (\<lambda>Luv. Luv_to_XYZ Luv illuminant)
             = Some (X, Y, Z)" if h: "0 < X \<and> 0 < Y \<and> 0 \<le> Z"
  proof -
    from h have "X \<noteq> 0" "Y \<noteq> 0" "X + 15 * Y + 3 * Z \<noteq> 0" by simp_all
    then show ?thesis by (rule Luv_forward_inverse [OF ill white(2) D])
  qed
  have img: "\<exists>Luv. XYZ_to_Luv (X, Y, Z) illuminant = Some Luv
                \<and> Luv_to_XYZ Luv illuminant \<bind> (\<lambda>XYZ. XYZ_to_Luv XYZ illuminant) = Some Luv"
    if h: "0 < X \<and> 0 < Y \<and> 0 \<le> Z"
  proof -
    from luv [OF h] obtain Luv where f: "XYZ_to_Luv (X, Y, Z) illuminant = Some Luv"
      and i: "Luv_to_XYZ Luv illuminant = Some (X, Y, Z)"
      by (auto split: Option.bind_splits)
    then show ?thesis by simp
  qed
  have vul: "Luv_to_XYZ (L, u, v) illuminant \<bind> (\<lambda>XYZ. XYZ_to_Luv XYZ illuminant)
             = Some (L, u, v)"
    if h: "L \<noteq> 0 \<and> u + 13 * L * (4 * Xr / (Xr + 15 * Yr + 3 * Zr)) \<noteq> 0
         \<and> v + 13 * L * (9 * Yr / (Xr + 15 * Yr + 3 * Zr)) \<noteq> 0"
    using h by (intro Luv_inverse_forward [OF ill white(2) D]) simp_all
  have lab: "map_option (\<lambda>Lab. Lab_to_XYZ Lab illuminant) (XYZ_to_Lab (X', Y', Z') illuminant)
             = Some (X', Y', Z')"
    by (rule Lab_forward_inverse [OF ill nz])
  have bal: "XYZ_to_Lab (Lab_to_XYZ (L', a, b) illuminant) illuminant = Some (L', a, b)"
    by (rule Lab_inverse_forward [OF ill nz])
  from luv img vul lab bal show ?thesis by blast
qed

theorem Luv_Lab_round_trip_witness:
  "XYZ_to_Luv (1, 1, 1) (0.34567, 0.3585) \<bind> (\<lambda>Luv. Luv_to_XYZ Luv (0.34567, 0.3585))
     = Some (1, 1, 1)
   \<and> XYZ_to_Luv (1 / 1000, 1 / 1000, 0) (0.34567, 0.3585)
        \<bind> (\<lambda>Luv. Luv_to_XYZ Luv (0.34567, 0.3585))
     = Some (1 / 1000, 1 / 1000, 0)
   \<and> Luv_to_XYZ (100, 0, 0) (0.34567, 0.3585) \<bind> (\<lambda>XYZ. XYZ_to_Luv XYZ (0.34567, 0.3585))
     = Some (100, 0, 0)
   \<and> Luv_to_XYZ (1, 0, 0) (0.34567, 0.3585) \<bind> (\<lambda>XYZ. XYZ_to_Luv XYZ (0.34567, 0.3585))
     = Some (1, 0, 0)
   \<and> map_option (\<lambda>Lab. Lab_to_XYZ Lab (0.34567, 0.3585))
        (XYZ_to_Lab (1, 1 / 1000, 0) (0.34567, 0.3585))
     = Some (1, 1 / 1000, 0)
   \<and> XYZ_to_Lab (Lab_to_XYZ (100, 0, 0) (0.34567, 0.3585)) (0.34567, 0.3585) = Some (100, 0, 0)
   \<and> XYZ_to_Lab (Lab_to_XYZ (1, 0, 0) (0.34567, 0.3585)) (0.34567, 0.3585) = Some (1, 0, 0)"
proof -
  let ?ill = "(0.34567, 0.3585) :: chromaticity"
  let ?Xr = "0.34567 / 0.3585 :: real"
  let ?Zr = "(1 - 0.34567 - 0.3585) / 0.3585 :: real"
  have valid: "0 < fst ?ill" "0 < snd ?ill" "fst ?ill + snd ?ill < 1"
    by simp_all
  have ill: "xy_to_XYZ ?ill = (?Xr, 1, ?Zr)"
    by (simp add: xy_to_XYZ_def xyY_to_XYZ_def)
  have above: "0 < (1::real) \<and> 0 < (1::real) \<and> 0 \<le> (1::real)"
    and below: "0 < (1 / 1000 :: real) \<and> 0 < (1 / 1000 :: real) \<and> 0 \<le> (0::real)"
    and lab: "0 \<le> (1::real) \<and> 0 \<le> (1 / 1000 :: real) \<and> 0 \<le> (0::real)"
    by simp_all
  have hi: "(100::real) \<noteq> 0 \<and> 0 + 13 * 100 * (4 * ?Xr / (?Xr + 15 * 1 + 3 * ?Zr)) \<noteq> 0
      \<and> 0 + 13 * 100 * (9 * 1 / (?Xr + 15 * 1 + 3 * ?Zr)) \<noteq> 0"
    and lo: "(1::real) \<noteq> 0 \<and> 0 + 13 * 1 * (4 * ?Xr / (?Xr + 15 * 1 + 3 * ?Zr)) \<noteq> 0
      \<and> 0 + 13 * 1 * (9 * 1 / (?Xr + 15 * 1 + 3 * ?Zr)) \<noteq> 0"
    by simp_all
  note t1 = Luv_Lab_round_trip [OF valid ill, of 1 1 1 100 0 0 1 "1 / 1000" 0 100 0 0]
  note t2 = Luv_Lab_round_trip [OF valid ill, of "1 / 1000" "1 / 1000" 0 1 0 0 1 "1 / 1000" 0 1 0 0]
  from t1 above hi lab
  have 1: "XYZ_to_Luv (1, 1, 1) ?ill \<bind> (\<lambda>Luv. Luv_to_XYZ Luv ?ill) = Some (1, 1, 1)"
    and 3: "Luv_to_XYZ (100, 0, 0) ?ill \<bind> (\<lambda>XYZ. XYZ_to_Luv XYZ ?ill) = Some (100, 0, 0)"
    and 5: "map_option (\<lambda>Lab. Lab_to_XYZ Lab ?ill) (XYZ_to_Lab (1, 1 / 1000, 0) ?ill)
            = Some (1, 1 / 1000, 0)"
    and 6: "XYZ_to_Lab (Lab_to_XYZ (100, 0, 0) ?ill) ?ill = Some (100, 0, 0)"
    by blast+
  from t2 below lo
  have 2: "XYZ_to_Luv (1 / 1000, 1 / 1000, 0) ?ill \<bind> (\<lambda>Luv. Luv_to_XYZ Luv ?ill)
           = Some (1 / 1000, 1 / 1000, 0)"
    and 4: "Luv_to_XYZ (1, 0, 0) ?ill \<bind> (\<lambda>XYZ. XYZ_to_Luv XYZ ?ill) = Some (1, 0, 0)"
    and 7: "XYZ_to_Lab (Lab_to_XYZ (1, 0, 0) ?ill) ?ill = Some (1, 0, 0)"
    by blast+
  from 1 2 3 4 5 6 7 show ?thesis by blast
qed

end
